theory Spec2Isabelle
  imports Main
begin

section \<open>JavaScript string primitives used by index.js\<close>

text \<open>
  Strings are character lists. \<open>String.prototype.lastIndexOf\<close> with a one-character
  needle gives the greatest index of the character, or \<open>-1\<close> when it does not occur.
\<close>

definition lastIndexOf :: "string \<Rightarrow> char \<Rightarrow> int" where
  "lastIndexOf s c =
     (if c \<in> set s
      then int (length s) - 1 - int (length (takeWhile (\<lambda>x. x \<noteq> c) (rev s)))
      else - 1)"

text \<open>
  \<open>String.prototype.substring(a, b)\<close>: both indices are clamped to \<open>[0, length]\<close> and
  swapped when the first is the greater one.
\<close>

definition substring :: "string \<Rightarrow> int \<Rightarrow> int \<Rightarrow> string" where
  "substring s a b =
     (let n = int (length s);
          a' = min (max a 0) n;
          b' = min (max b 0) n;
          lo = min a' b';
          hi = max a' b'
      in take (nat (hi - lo)) (drop (nat lo) s))"

text \<open>
  \<open>String.prototype.split\<close> with a one-character separator. The result is never
  empty: the empty string splits into one empty piece.
\<close>

fun split :: "char \<Rightarrow> string \<Rightarrow> string list" where
  "split c [] = [[]]"
| "split c (x # xs) =
     (if x = c then [] # split c xs
      else (case split c xs of
              [] \<Rightarrow> [[x]]
            | y # ys \<Rightarrow> (x # y) # ys))"

text \<open>\<open>Array.prototype.pop\<close> as used on the result of \<open>split\<close>: the last element.\<close>

definition pop :: "string list \<Rightarrow> string" where
  "pop xs = last xs"

text \<open>
  \<open>s.replace(/\\ /g, " ")\<close>: every backslash followed by a space becomes a space; the
  scan goes from left to right and matches do not overlap.
\<close>

fun replace_escaped_spaces :: "string \<Rightarrow> string" where
  "replace_escaped_spaces (a # b # xs) =
     (if a = CHR 0x5C \<and> b = CHR '' '' then CHR '' '' # replace_escaped_spaces xs
      else a # replace_escaped_spaces (b # xs))"
| "replace_escaped_spaces xs = xs"

section \<open>Numbers and the padding option\<close>

text \<open>
  A JavaScript number: NaN, an infinity, or a finite double given by its exact value,
  which is an integer \<open>n\<close> or a fraction \<open>m / 2^k\<close> with \<open>m\<close> odd and \<open>k\<close> positive (the
  sign of a zero is not kept).
\<close>

datatype js_number = NaN | Infinity | MinusInfinity | Integer int | Fraction int nat

text \<open>The value a caller passes as \<open>options.padding\<close>: any primitive value.\<close>

datatype padding_value =
  PadUndefined | PadNull | PadBoolean bool | PadNumber js_number | PadString string

section \<open>The FORMATS table\<close>

record format_entry =
  template :: string
  extension :: string
  trim :: bool

definition FORMATS :: "(string \<times> format_entry) list" where
  "FORMATS =
     [(''json'', \<lparr>template = ''json.template'', extension = ''json'', trim = False\<rparr>),
      (''yaml'', \<lparr>template = ''yaml.template'', extension = ''yaml'', trim = False\<rparr>),
      (''jsonarray'', \<lparr>template = ''jsonarray.template'', extension = ''json'', trim = False\<rparr>),
      (''pixi.js'', \<lparr>template = ''json.template'', extension = ''json'', trim = True\<rparr>),
      (''starling'', \<lparr>template = ''starling.template'', extension = ''xml'', trim = True\<rparr>),
      (''sparrow'', \<lparr>template = ''starling.template'', extension = ''xml'', trim = True\<rparr>),
      (''easel.js'', \<lparr>template = ''easeljs.template'', extension = ''json'', trim = False\<rparr>),
      (''egret'', \<lparr>template = ''egret.template'', extension = ''json'', trim = False\<rparr>),
      (''zebkit'', \<lparr>template = ''zebkit.template'', extension = ''js'', trim = False\<rparr>),
      (''cocos2d'', \<lparr>template = ''cocos2d.template'', extension = ''plist'', trim = False\<rparr>),
      (''cocos2d-v3'', \<lparr>template = ''cocos2d-v3.template'', extension = ''plist'', trim = False\<rparr>),
      (''css'', \<lparr>template = ''css.template'', extension = ''css'', trim = False\<rparr>)]"

text \<open>
  \<open>FORMATS\<close> is an object literal, so a property read that misses the table falls
  through to \<open>Object.prototype\<close>: its members are found under their names, and they are
  truthy values without an \<open>extension\<close> or a \<open>trim\<close> property.
\<close>

definition Object_prototype_keys :: "string list" where
  "Object_prototype_keys =
     [''constructor'', ''__defineGetter__'', ''__defineSetter__'', ''hasOwnProperty'',
      ''__lookupGetter__'', ''__lookupSetter__'', ''isPrototypeOf'', ''propertyIsEnumerable'',
      ''toString'', ''valueOf'', ''__proto__'', ''toLocaleString'']"

datatype property = Entry format_entry | Inherited string | Undefined

definition FORMATS_get :: "string \<Rightarrow> property" where
  "FORMATS_get x =
     (case map_of FORMATS x of
        Some e \<Rightarrow> Entry e
      | None \<Rightarrow> if x \<in> set Object_prototype_keys then Inherited x else Undefined)"

section \<open>Options\<close>

text \<open>
  A value of the argument vector that \<open>generate\<close> hands on untouched, or that the
  command line check reads.
\<close>

datatype jsval = JUndefined | JNull | JBool bool | JNum int | JNaN | JStr string

text \<open>\<open>options.format\<close> as the caller gives it: absent, a string, or an array of strings.\<close>

datatype format_option = FUndefined | FString string | FArray "string list"

text \<open>
  The options object as the caller passes it. A field is \<open>None\<close> when the object has
  no own property of that name.
\<close>

record options =
  opt_format :: format_option
  opt_customFormat :: "string option"
  opt_name :: "string option"
  opt_path :: "string option"
  opt_ext :: "string option"
  opt_fullpath :: "bool option"
  opt_prefix :: "string option"
  opt_trim :: "bool option"
  opt_extension :: "string option"
  opt_square :: "bool option"
  opt_powerOfTwo :: "bool option"
  opt_validate :: "bool option"
  opt_algorithm :: "string option"
  opt_sort :: "string option"
  opt_padding :: "padding_value option"
  opt_divisibleByTwo :: "bool option"
  opt_cssOrder :: "string option"
  opt_scale :: jsval
  opt_fuzz :: jsval
  opt_width :: jsval
  opt_height :: jsval
  opt_tinify :: jsval

text \<open>\<open>options.format\<close> after lines 171-180: an array of table reads, or left as it was.\<close>

datatype resolved_format = Resolved "property list" | Untouched format_option

text \<open>The options object after lines 164-202.\<close>

record config =
  cfg_format :: resolved_format
  cfg_customFormat :: "string option"
  cfg_name :: string
  cfg_path :: string
  cfg_ext :: "string option"
  cfg_fullpath :: bool
  cfg_prefix :: string
  cfg_trim :: "bool option"
  cfg_extension :: "string option"
  cfg_square :: bool
  cfg_powerOfTwo :: bool
  cfg_validate :: bool
  cfg_algorithm :: string
  cfg_sort :: string
  cfg_padding :: js_number
  cfg_divisibleByTwo :: bool
  cfg_cssOrder :: "string option"
  cfg_scale :: jsval
  cfg_fuzz :: jsval
  cfg_width :: jsval
  cfg_height :: jsval
  cfg_tinify :: jsval

datatype errno = ENOENT | EEXIST | ENOTDIR | EISDIR

datatype js_error = Error string | TypeError | SystemError errno

text \<open>Truthiness of the two values tested at line 176.\<close>

definition truthy_format :: "format_option \<Rightarrow> bool" where
  "truthy_format f = (case f of FUndefined \<Rightarrow> False | FString s \<Rightarrow> s \<noteq> [] | FArray xs \<Rightarrow> True)"

definition truthy_string :: "string option \<Rightarrow> bool" where
  "truthy_string s = (case s of None \<Rightarrow> False | Some t \<Rightarrow> t \<noteq> [])"

text \<open>The property key that \<open>FORMATS[options.format]\<close> reads at line 178.\<close>

definition format_key :: "format_option \<Rightarrow> string" where
  "format_key f = (case f of FString s \<Rightarrow> s | _ \<Rightarrow> ''undefined'')"

text \<open>\<open>FORMATS[options.format] || FORMATS["pixi.js"]\<close>.\<close>

definition format_or_pixi :: "format_option \<Rightarrow> property" where
  "format_or_pixi f =
     (case FORMATS_get (format_key f) of
        Undefined \<Rightarrow> FORMATS_get ''pixi.js''
      | p \<Rightarrow> p)"

text \<open>Lines 171-180.\<close>

definition resolve_format :: "format_option \<Rightarrow> string option \<Rightarrow> resolved_format" where
  "resolve_format f cf =
     (case f of
        FArray xs \<Rightarrow> Resolved (map FORMATS_get xs)
      | _ \<Rightarrow> if truthy_format f \<or> \<not> truthy_string cf then Resolved [format_or_pixi f]
             else Untouched f)"

text \<open>
  \<open>options.format[0]\<close> followed by a property read (lines 189 and 190). Reading a
  property of \<open>undefined\<close> throws a TypeError; an inherited member has neither property.
\<close>

definition first_format :: "resolved_format \<Rightarrow> js_error + format_entry option" where
  "first_format r =
     (case r of
        Resolved (Entry e # _) \<Rightarrow> Inr (Some e)
      | Resolved (Inherited _ # _) \<Rightarrow> Inr None
      | Resolved (Undefined # _) \<Rightarrow> Inl TypeError
      | Resolved [] \<Rightarrow> Inl TypeError
      | Untouched _ \<Rightarrow> Inl TypeError)"

section \<open>The environment: glob, path and fs\<close>

text \<open>
  The library functions index.js calls are parameters of the model: \<open>glob.sync\<close> (on
  the file system as it is when \<open>generate\<close> starts), \<open>path.dirname\<close>,
  \<open>path.resolve\<close> (which depends on the working directory), \<open>path.extname\<close> and
  \<open>path.sep\<close>; so is the language's \<open>parseInt\<close> with radix 10, as \<open>js_parseInt\<close>.
\<close>

record env =
  glob_sync :: "string \<Rightarrow> string list"
  path_dirname :: "string \<Rightarrow> string"
  path_resolve :: "string \<Rightarrow> string"
  path_extname :: "string \<Rightarrow> string"
  path_sep :: char
  js_parseInt :: "padding_value \<Rightarrow> js_number"

text \<open>
  The file system is a store from absolute paths to nodes. \<open>fs.existsSync\<close> never
  throws; \<open>fs.mkdirSync\<close> without the recursive option throws when the path exists or
  when its parent is not an existing directory; \<open>fs.unlinkSync\<close> throws when the path
  is missing or is a directory.
\<close>

datatype node = Directory | RegularFile string

type_synonym filesystem = "string \<rightharpoonup> node"

definition existsSync :: "filesystem \<Rightarrow> string \<Rightarrow> bool" where
  "existsSync fs p = (fs p \<noteq> None)"

definition mkdirSync :: "env \<Rightarrow> filesystem \<Rightarrow> string \<Rightarrow> js_error option \<times> filesystem" where
  "mkdirSync e fs p =
     (if fs p \<noteq> None then (Some (SystemError EEXIST), fs)
      else (case fs (path_dirname e p) of
              None \<Rightarrow> (Some (SystemError ENOENT), fs)
            | Some (RegularFile _) \<Rightarrow> (Some (SystemError ENOTDIR), fs)
            | Some Directory \<Rightarrow> (None, fs(p \<mapsto> Directory))))"

definition unlinkSync :: "filesystem \<Rightarrow> string \<Rightarrow> js_error option \<times> filesystem" where
  "unlinkSync fs p =
     (case fs p of
        None \<Rightarrow> (Some (SystemError ENOENT), fs)
      | Some Directory \<Rightarrow> (Some (SystemError EISDIR), fs)
      | Some (RegularFile _) \<Rightarrow> (None, fs(p := None)))"

section \<open>generate: option defaults (lines 164-202)\<close>

text \<open>\<open>options || {}\<close>: an object with no own property.\<close>

definition empty_options :: options where
  "empty_options =
     \<lparr>opt_format = FUndefined, opt_customFormat = None, opt_name = None, opt_path = None,
      opt_ext = None, opt_fullpath = None, opt_prefix = None, opt_trim = None,
      opt_extension = None, opt_square = None, opt_powerOfTwo = None, opt_validate = None,
      opt_algorithm = None, opt_sort = None, opt_padding = None, opt_divisibleByTwo = None,
      opt_cssOrder = None, opt_scale = JUndefined, opt_fuzz = JUndefined,
      opt_width = JUndefined, opt_height = JUndefined, opt_tinify = JUndefined\<rparr>"

definition options_or_empty :: "options option \<Rightarrow> options" where
  "options_or_empty oo = (case oo of None \<Rightarrow> empty_options | Some opts \<Rightarrow> opts)"

text \<open>String concatenation with a possibly undefined operand (line 166).\<close>

definition to_string :: "string option \<Rightarrow> string" where
  "to_string s = (case s of None \<Rightarrow> ''undefined'' | Some t \<Rightarrow> t)"

definition glob_pattern :: "string \<Rightarrow> options \<Rightarrow> string" where
  "glob_pattern dir opts = dir @ ''/*.'' @ to_string (opt_ext opts)"

text \<open>\<open>a || b\<close> on strings: the empty string and an absent one are falsy.\<close>

definition string_or :: "string option \<Rightarrow> string \<Rightarrow> string" where
  "string_or a b = (case a of None \<Rightarrow> b | Some t \<Rightarrow> if t = [] then b else t)"

text \<open>\<open>options.hasOwnProperty(k) ? options[k] : d\<close>.\<close>

definition own_or :: "'a option \<Rightarrow> 'a \<Rightarrow> 'a" where
  "own_or a d = (case a of None \<Rightarrow> d | Some v \<Rightarrow> v)"

text \<open>Line 184: the last piece of the first file's directory.\<close>

definition default_name :: "env \<Rightarrow> string list \<Rightarrow> string" where
  "default_name e files = pop (split CHR ''/'' (path_dirname e (hd files)))"

text \<open>
  Lines 171-202, for a non-empty file list. The two reads of \<open>options.format[0]\<close> are
  made only when the caller gave no \<open>extension\<close>, respectively no \<open>trim\<close>.
\<close>

definition resolve_options :: "env \<Rightarrow> string list \<Rightarrow> options \<Rightarrow> js_error + config" where
  "resolve_options e files opts =
     (let fmt = resolve_format (opt_format opts) (opt_customFormat opts);
          ext_r = (case opt_extension opts of
                     Some x \<Rightarrow> Inr (Some x)
                   | None \<Rightarrow> map_sum id (map_option extension) (first_format fmt));
          trim_r = (case opt_trim opts of
                      Some t \<Rightarrow> Inr (Some t)
                    | None \<Rightarrow> map_sum id (map_option trim) (first_format fmt))
      in case ext_r of
           Inl err \<Rightarrow> Inl err
         | Inr x \<Rightarrow>
             (case trim_r of
                Inl err \<Rightarrow> Inl err
              | Inr t \<Rightarrow>
                  Inr \<lparr>cfg_format = fmt,
                       cfg_customFormat = opt_customFormat opts,
                       cfg_name = string_or (opt_name opts) (default_name e files),
                       cfg_path = path_resolve e (string_or (opt_path opts) ''export''),
                       cfg_ext = opt_ext opts,
                       cfg_fullpath = own_or (opt_fullpath opts) False,
                       cfg_prefix = own_or (opt_prefix opts) [],
                       cfg_trim = t,
                       cfg_extension = x,
                       cfg_square = own_or (opt_square opts) False,
                       cfg_powerOfTwo = own_or (opt_powerOfTwo opts) False,
                       cfg_validate = own_or (opt_validate opts) False,
                       cfg_algorithm = own_or (opt_algorithm opts) ''growing-binpacking'',
                       cfg_sort = own_or (opt_sort opts) ''maxside'',
                       cfg_padding = (case opt_padding opts of
                                        None \<Rightarrow> Integer 0
                                      | Some v \<Rightarrow> js_parseInt e v),
                       cfg_divisibleByTwo = own_or (opt_divisibleByTwo opts) False,
                       cfg_cssOrder = opt_cssOrder opts,
                       cfg_scale = opt_scale opts,
                       cfg_fuzz = opt_fuzz opts,
                       cfg_width = opt_width opts,
                       cfg_height = opt_height opts,
                       cfg_tinify = opt_tinify opts\<rparr>))"

section \<open>generate: the file entries (lines 204-220)\<close>

record source_file =
  file_index :: nat
  file_path :: string
  file_name :: string
  file_extension :: string

definition frame_name :: "env \<Rightarrow> config \<Rightarrow> string \<Rightarrow> string" where
  "frame_name e options item =
     (let resolvedItem = path_resolve e item
      in if cfg_fullpath options
         then substring item 0 (lastIndexOf item CHR ''.'')
         else cfg_prefix options @
              substring resolvedItem (lastIndexOf resolvedItem (path_sep e) + 1)
                (lastIndexOf resolvedItem CHR ''.''))"

definition file_entry :: "env \<Rightarrow> config \<Rightarrow> nat \<times> string \<Rightarrow> source_file" where
  "file_entry e options p =
     (case p of (index, item) \<Rightarrow>
        \<lparr>file_index = index,
         file_path = path_resolve e item,
         file_name = frame_name e options item,
         file_extension = path_extname e (path_resolve e item)\<rparr>)"

definition map_files :: "env \<Rightarrow> config \<Rightarrow> string list \<Rightarrow> source_file list" where
  "map_files e options files = map (file_entry e options) (enumerate 0 files)"

section \<open>generate: the output directory (lines 222-236)\<close>

definition output_file :: "env \<Rightarrow> config \<Rightarrow> string \<Rightarrow> string" where
  "output_file e options suffix =
     path_resolve e (cfg_path options @ ''/'' @ cfg_name options @ suffix)"

text \<open>Lines 229-231 and 233-235: unlink the file when it exists.\<close>

definition remove_existing :: "filesystem \<Rightarrow> string \<Rightarrow> js_error option \<times> filesystem" where
  "remove_existing fs p =
     (if existsSync fs p then unlinkSync fs (replace_escaped_spaces p) else (None, fs))"

definition prepare_output :: "env \<Rightarrow> config \<Rightarrow> filesystem \<Rightarrow> js_error option \<times> filesystem" where
  "prepare_output e options fs =
     (if \<not> existsSync fs (cfg_path options)
      then (if cfg_path options \<noteq> [] then mkdirSync e fs (cfg_path options) else (None, fs))
      else (case remove_existing fs (output_file e options ''.png'') of
              (Some err, fs1) \<Rightarrow> (Some err, fs1)
            | (None, fs1) \<Rightarrow> remove_existing fs1 (output_file e options ''.json'')))"

section \<open>generate: the waterfall (lines 238-257)\<close>

datatype stage = TreatImages | GetImagesSizes | DetermineCanvasSize | GenerateImage | GenerateData

text \<open>
  The stages live in lib/generator, which is not among the sources: they are parameters.
  A stage reads and updates the objects it shares with the others (the \<open>files\<close> array,
  the \<open>options\<close> object) and the file system, and calls its callback once, with an error
  or with a result. \<open>'f\<close> is what \<open>getImagesSizes\<close> hands on, \<open>'c\<close> what
  \<open>determineCanvasSize\<close> hands on.
\<close>

record store =
  st_files :: "source_file list"
  st_options :: config
  st_fs :: filesystem

record ('f, 'c) generator =
  treatImages :: "source_file list \<Rightarrow> config \<Rightarrow> store \<Rightarrow> (js_error + unit) \<times> store"
  getImagesSizes :: "source_file list \<Rightarrow> config \<Rightarrow> store \<Rightarrow> (js_error + 'f) \<times> store"
  determineCanvasSize :: "'f \<Rightarrow> config \<Rightarrow> store \<Rightarrow> (js_error + 'c) \<times> store"
  generateImage :: "source_file list \<Rightarrow> 'c \<Rightarrow> store \<Rightarrow> (js_error + unit) \<times> store"
  generateData :: "source_file list \<Rightarrow> config \<Rightarrow> store \<Rightarrow> (js_error + unit) \<times> store"

text \<open>The log of the stages called, each with how it ended.\<close>

datatype event = Passed stage | Failed stage

type_synonym 'a task = "store \<times> event list \<Rightarrow> (js_error + 'a) \<times> store \<times> event list"

definition call_stage :: "stage \<Rightarrow> (store \<Rightarrow> (js_error + 'a) \<times> store) \<Rightarrow> 'a task" where
  "call_stage k f p =
     (case p of (s, log) \<Rightarrow>
        (case f s of
           (Inl err, s') \<Rightarrow> (Inl err, s', log @ [Failed k])
         | (Inr v, s') \<Rightarrow> (Inr v, s', log @ [Passed k])))"

text \<open>
  \<open>async.waterfall\<close>: a task that ends with an error ends the chain with that error;
  otherwise its result is the argument of the next task.
\<close>

definition waterfall_then :: "'a task \<Rightarrow> ('a \<Rightarrow> 'b task) \<Rightarrow> 'b task" where
  "waterfall_then t f p =
     (case t p of
        (Inl err, p') \<Rightarrow> (Inl err, p')
      | (Inr v, p') \<Rightarrow> f v p')"

definition waterfall :: "('f, 'c) generator \<Rightarrow> unit task" where
  "waterfall gen =
     waterfall_then
       (call_stage TreatImages (\<lambda>s. treatImages gen (st_files s) (st_options s) s))
       (\<lambda>_. waterfall_then
          (call_stage GetImagesSizes (\<lambda>s. getImagesSizes gen (st_files s) (st_options s) s))
          (\<lambda>files. waterfall_then
             (call_stage DetermineCanvasSize (\<lambda>s. determineCanvasSize gen files (st_options s) s))
             (\<lambda>options. waterfall_then
                (call_stage GenerateImage (\<lambda>s. generateImage gen (st_files s) options s))
                (\<lambda>_. call_stage GenerateData
                        (\<lambda>s. generateData gen (st_files s) (st_options s) s)))))"

section \<open>generate\<close>

text \<open>
  A run ends with an exception thrown to the caller, or with the callback called with an
  error or with none.
\<close>

datatype outcome = Throws js_error | Callback "js_error option"

record run =
  outcome :: outcome
  fs_after :: filesystem
  invoked :: "event list"

definition generate ::
  "env \<Rightarrow> ('f, 'c) generator \<Rightarrow> string \<Rightarrow> options option \<Rightarrow> filesystem \<Rightarrow> run" where
  "generate e gen dir oo fs =
     (let opts = options_or_empty oo;
          files = glob_sync e (glob_pattern dir opts)
      in if length files = 0
         then \<lparr>outcome = Callback (Some (Error ''no files found...'')), fs_after = fs, invoked = []\<rparr>
         else (case resolve_options e files opts of
                 Inl err \<Rightarrow> \<lparr>outcome = Throws err, fs_after = fs, invoked = []\<rparr>
               | Inr options \<Rightarrow>
                   (case prepare_output e options fs of
                      (Some err, fs1) \<Rightarrow> \<lparr>outcome = Throws err, fs_after = fs1, invoked = []\<rparr>
                    | (None, fs1) \<Rightarrow>
                        (case waterfall gen
                                (\<lparr>st_files = map_files e options files, st_options = options,
                                  st_fs = fs1\<rparr>, [])
                         of (r, s, log) \<Rightarrow>
                              \<lparr>outcome = Callback (case r of Inl err \<Rightarrow> Some err | Inr _ \<Rightarrow> None),
                               fs_after = st_fs s, invoked = log\<rparr>))))"

section \<open>The command line check (lines 124-130)\<close>

text \<open>
  \<open>isNaN(Number(v))\<close>. \<open>Number(null)\<close> is 0 and a boolean is 0 or 1; \<open>undefined\<close> is
  NaN. Which strings are numerals is the language's StringToNumber, a parameter here.
\<close>

definition isNaN_Number :: "(string \<Rightarrow> bool) \<Rightarrow> jsval \<Rightarrow> bool" where
  "isNaN_Number numeric v =
     (case v of
        JUndefined \<Rightarrow> True
      | JNull \<Rightarrow> False
      | JBool _ \<Rightarrow> False
      | JNum _ \<Rightarrow> False
      | JNaN \<Rightarrow> True
      | JStr s \<Rightarrow> \<not> numeric s)"

record argv =
  algorithm :: jsval
  width :: jsval
  height :: jsval

definition check :: "(string \<Rightarrow> bool) \<Rightarrow> argv \<Rightarrow> js_error + bool" where
  "check numeric a =
     (if algorithm a \<noteq> JStr ''binpacking'' \<or>
         (\<not> isNaN_Number numeric (width a) \<and> \<not> isNaN_Number numeric (height a))
      then Inr True
      else Inl (Error ''Width and/or height are not defined for binpacking''))"

section \<open>Example runs\<close>

text \<open>
  A POSIX environment with working directory \<open>/w\<close>, whose directory \<open>assets\<close> holds
  two PNG files. Its path functions are right on the paths of the examples (no \<open>.\<close> or
  \<open>..\<close> segment, no doubled or trailing slash). Its \<open>js_parseInt\<close> is the table of
  \<open>parseInt(x, 10)\<close> at the paddings of the examples: the numbers \<open>-5\<close> and \<open>3\<close>, which
  parse to themselves, and the string \<open>wide\<close>, which has no digit and parses to NaN.
\<close>

definition example_env :: env where
  "example_env =
     \<lparr>glob_sync = (\<lambda>p. if p = ''assets/*.png'' then [''assets/a.png'', ''assets/b.png''] else []),
      path_dirname = (\<lambda>p. if CHR ''/'' \<in> set p
                             then substring p 0 (max 1 (lastIndexOf p CHR ''/''))
                             else ''.''),
      path_resolve = (\<lambda>p. if p \<noteq> [] \<and> hd p = CHR ''/'' then p else ''/w/'' @ p),
      path_extname = (\<lambda>p. if CHR ''.'' \<in> set p
                             then drop (nat (lastIndexOf p CHR ''.'')) p else []),
      path_sep = CHR ''/'',
      js_parseInt = (\<lambda>v. if v = PadNumber (Integer (- 5)) then Integer (- 5)
                          else if v = PadNumber (Integer 3) then Integer 3
                          else NaN)\<rparr>"

definition example_fs :: filesystem where
  "example_fs =
     [''/'' \<mapsto> Directory, ''/w'' \<mapsto> Directory, ''/w/assets'' \<mapsto> Directory,
      ''/w/assets/a.png'' \<mapsto> RegularFile ''a'', ''/w/assets/b.png'' \<mapsto> RegularFile ''b'',
      ''/w/export'' \<mapsto> Directory,
      ''/w/export/assets.png'' \<mapsto> RegularFile ''old atlas'',
      ''/w/export/assets.json'' \<mapsto> RegularFile ''old descriptor'']"

text \<open>
  Modelled from the spec: the Sink, whose code is in lib/generator and not among the
  sources. It persists the bytes under the resolved name, overwriting a pre-existing
  file of that name, and it does not fail, on a repeated write either.
\<close>

definition sink_write :: "string \<Rightarrow> string \<Rightarrow> filesystem \<Rightarrow> js_error option \<times> filesystem" where
  "sink_write p bytes fs = (None, fs(p \<mapsto> RegularFile bytes))"

definition write_file :: "string \<Rightarrow> string \<Rightarrow> store \<Rightarrow> store" where
  "write_file p bytes s = s\<lparr>st_fs := snd (sink_write p bytes (st_fs s))\<rparr>"

text \<open>
  Modelled from the spec: the stages of lib/generator, which is not among the sources.
  The Compositor (\<open>generateImage\<close>) hands the atlas to the Sink as \<open><name>.png\<close> in
  the target directory and the Descriptor Emitter (\<open>generateData\<close>) hands it the
  descriptor as \<open><name>.<extension>\<close>; the Sink overwrites a file of the same name.
  The other stages write nothing. The contents are placeholders.
\<close>

definition example_generator :: "(source_file list, config) generator" where
  "example_generator =
     \<lparr>treatImages = (\<lambda>files options s. (Inr (), s)),
      getImagesSizes = (\<lambda>files options s. (Inr files, s)),
      determineCanvasSize = (\<lambda>files options s. (Inr options, s)),
      generateImage = (\<lambda>files options s.
         (Inr (), write_file (cfg_path options @ ''/'' @ cfg_name options @ ''.png'') ''atlas'' s)),
      generateData = (\<lambda>files options s.
         (Inr (), write_file (cfg_path options @ ''/'' @ cfg_name options @ ''.'' @
                   to_string (cfg_extension options)) ''descriptor'' s))\<rparr>"

text \<open>The same stages, with a Descriptor Emitter that fails.\<close>

definition failing_data_generator :: "(source_file list, config) generator" where
  "failing_data_generator =
     example_generator\<lparr>generateData := (\<lambda>files options s. (Inl (Error ''no template''), s))\<rparr>"

definition png_options :: options where
  "png_options = empty_options\<lparr>opt_ext := Some ''png''\<rparr>"

section \<open>Facts about the string primitives\<close>

lemma lastIndexOf_append: "c \<notin> set x \<Longrightarrow> lastIndexOf (p @ c # x) c = int (length p)"
proof -
  assume a: "c \<notin> set x"
  have "takeWhile (\<lambda>y. y \<noteq> c) (rev x @ c # rev p) = takeWhile (\<lambda>y. y \<noteq> c) (rev x)"
    by (rule takeWhile_tail) simp
  also have "\<dots> = rev x"
    using a by (auto simp: takeWhile_eq_all_conv)
  finally show ?thesis by (simp add: lastIndexOf_def)
qed

lemma substring_prefix: "substring (p @ r) 0 (int (length p)) = p"
  by (simp add: substring_def Let_def min_def max_def)

lemma substring_middle:
  "substring (d @ b @ r) (int (length d)) (int (length d) + int (length b)) = b"
proof -
  let ?n = "int (length (d @ b @ r))"
  have 1: "min (max (int (length d)) 0) ?n = int (length d)"
    by simp
  have 2: "min (max (int (length d) + int (length b)) 0) ?n = int (length d) + int (length b)"
    by simp
  show ?thesis
    unfolding substring_def Let_def 1 2 by simp
qed

lemma split_not_Nil: "split c s \<noteq> []"
  by (induction s) (auto split: list.splits)

lemma split_no_sep: "c \<notin> set s \<Longrightarrow> split c s = [s]"
  by (induction s) (auto split: list.splits)

lemma split_sep_tail: "c \<in> set s \<Longrightarrow> tl (split c s) \<noteq> []"
  by (induction s) (auto simp: split_not_Nil split: list.splits)

lemma last_split_append: "c \<notin> set b \<Longrightarrow> last (split c (d @ c # b)) = b"
proof (induction d)
  case Nil
  then show ?case by (simp add: split_no_sep)
next
  case (Cons a d)
  have t: "tl (split c (d @ c # b)) \<noteq> []"
    by (rule split_sep_tail) simp
  show ?case
  proof (cases "a = c")
    case True
    then show ?thesis using Cons by (simp add: split_not_Nil)
  next
    case False
    obtain y ys where s: "split c (d @ c # b) = y # ys"
      using split_not_Nil by (cases "split c (d @ c # b)") auto
    with t have "ys \<noteq> []" by simp
    then show ?thesis using Cons False s by simp
  qed
qed

lemma generate_cong:
  assumes x: "opt_ext a = opt_ext b"
    and r: "\<And>files. resolve_options e files a = resolve_options e files b"
  shows "generate e gen dir (Some a) fs = generate e gen dir (Some b) fs"
proof -
  have p: "glob_pattern dir a = glob_pattern dir b"
    using x by (simp add: glob_pattern_def)
  have q: "options_or_empty (Some a) = a" "options_or_empty (Some b) = b"
    by (simp_all add: options_or_empty_def)
  show ?thesis
    unfolding generate_def Let_def q p r by (rule refl)
qed

section \<open>Format resolution and the defaults taken from the format\<close>

lemma first_format_Entry: "first_format (Resolved (Entry en # ps)) = Inr (Some en)"
  by (simp add: first_format_def)

lemma resolve_options_Entry:
  assumes "resolve_format (opt_format opts) (opt_customFormat opts) = Resolved (Entry en # ps)"
  shows "\<exists>cfg. resolve_options e files opts = Inr cfg \<and>
           cfg_format cfg = Resolved (Entry en # ps) \<and>
           cfg_trim cfg = Some (case opt_trim opts of None \<Rightarrow> trim en | Some t \<Rightarrow> t) \<and>
           cfg_extension cfg =
             Some (case opt_extension opts of None \<Rightarrow> extension en | Some x \<Rightarrow> x)"
  unfolding resolve_options_def Let_def assms first_format_Entry
  by (cases "opt_extension opts"; cases "opt_trim opts") simp_all

lemma map_of_FORMATS_cases:
  "map_of FORMATS f = Some en \<Longrightarrow>
     f \<noteq> [] \<and> FORMATS_get f = Entry en \<and>
     trim en = (f \<in> {''pixi.js'', ''starling'', ''sparrow''})"
  by (auto simp: FORMATS_def FORMATS_get_def split: if_splits)

text \<open>
  C10. When the options have no own \<open>trim\<close>, the resolved trim flag is the one of the
  selected format (the only format, or the first of an array), which is true for pixi.js,
  starling and sparrow and false for every other registered format; when they have no own
  \<open>extension\<close>, the resolved descriptor extension is the one registered for that
  format. (The command line always sets \<open>trim\<close>, to false when the flag is not given, so
  there the format's flag is never consulted.)
\<close>

theorem trim_extension_default:
  assumes reg: "map_of FORMATS f = Some en"
    and fmt: "opt_format opts = FString f \<or> opt_format opts = FArray (f # fs)"
  shows "\<exists>cfg. resolve_options e files opts = Inr cfg \<and>
           (opt_trim opts = None \<longrightarrow>
              cfg_trim cfg = Some (trim en) \<and>
              trim en = (f \<in> {''pixi.js'', ''starling'', ''sparrow''})) \<and>
           (opt_extension opts = None \<longrightarrow> cfg_extension cfg = Some (extension en))"
proof -
  from reg have k: "f \<noteq> []" "FORMATS_get f = Entry en"
      "trim en = (f \<in> {''pixi.js'', ''starling'', ''sparrow''})"
    using map_of_FORMATS_cases by blast+
  from fmt obtain ps where
    r: "resolve_format (opt_format opts) (opt_customFormat opts) = Resolved (Entry en # ps)"
    using k by (auto simp: resolve_format_def truthy_format_def format_or_pixi_def format_key_def)
  from resolve_options_Entry[OF r, of e files] show ?thesis
    using k(3) by auto
qed


text \<open>The defaults of the starling format: trim is true, the extension is xml.\<close>

theorem trim_extension_default_witness:
  "map_of FORMATS ''starling'' =
     Some \<lparr>template = ''starling.template'', extension = ''xml'', trim = True\<rparr> \<and>
   opt_format (png_options\<lparr>opt_format := FString ''starling''\<rparr>) = FString ''starling'' \<and>
   opt_trim (png_options\<lparr>opt_format := FString ''starling''\<rparr>) = None \<and>
   opt_extension (png_options\<lparr>opt_format := FString ''starling''\<rparr>) = None \<and>
   map_sum id (\<lambda>c. (cfg_trim c, cfg_extension c))
     (resolve_options example_env [''assets/a.png'']
        (png_options\<lparr>opt_format := FString ''starling''\<rparr>)) = Inr (Some True, Some ''xml'')"
proof -
  let ?en = "\<lparr>template = ''starling.template'', extension = ''xml'', trim = True\<rparr>"
  let ?o = "png_options\<lparr>opt_format := FString ''starling''\<rparr>"
  have reg: "map_of FORMATS ''starling'' = Some ?en"
    by (simp add: FORMATS_def)
  have fmt: "opt_format ?o = FString ''starling'' \<or> opt_format ?o = FArray (''starling'' # [])"
    by simp
  have n: "opt_trim ?o = None" "opt_extension ?o = None"
    by (simp_all add: png_options_def empty_options_def)
  from trim_extension_default[OF reg fmt, of example_env "[''assets/a.png'']"] n
  obtain cfg where "resolve_options example_env [''assets/a.png''] ?o = Inr cfg"
    "cfg_trim cfg = Some True" "cfg_extension cfg = Some ''xml''"
    by auto
  then show ?thesis using reg n by simp
qed

text \<open>
  C3, as amended. The code has no UnsupportedFormat error. A single format identifier
  that is not a registered name (and not the name of a member of \<open>Object.prototype\<close>),
  with no custom template, is replaced by the pixi.js format: the options resolve, and
  the format list is the pixi.js entry alone.
\<close>

theorem unknown_format_falls_back:
  assumes unreg: "map_of FORMATS f = None"
    and uninh: "f \<notin> set Object_prototype_keys"
    and fmt: "opt_format opts = FString f"
    and nocf: "\<not> truthy_string (opt_customFormat opts)"
  shows "\<exists>cfg. resolve_options e files opts = Inr cfg \<and>
           cfg_format cfg =
             Resolved [Entry \<lparr>template = ''json.template'', extension = ''json'', trim = True\<rparr>]"
proof -
  have u: "FORMATS_get f = Undefined"
    using unreg uninh by (simp add: FORMATS_get_def)
  have p: "FORMATS_get ''pixi.js'' =
      Entry \<lparr>template = ''json.template'', extension = ''json'', trim = True\<rparr>"
    by (simp add: FORMATS_get_def FORMATS_def)
  have r: "resolve_format (opt_format opts) (opt_customFormat opts) =
      Resolved (Entry \<lparr>template = ''json.template'', extension = ''json'', trim = True\<rparr> # [])"
    using nocf by (simp add: fmt resolve_format_def format_or_pixi_def format_key_def u p)
  from resolve_options_Entry[OF r, of e files] show ?thesis by auto
qed

theorem unknown_format_falls_back_witness:
  "map_of FORMATS ''tga'' = None \<and>
   ''tga'' \<notin> set Object_prototype_keys \<and>
   opt_format (png_options\<lparr>opt_format := FString ''tga'', opt_customFormat := Some []\<rparr>) =
     FString ''tga'' \<and>
   \<not> truthy_string
       (opt_customFormat (png_options\<lparr>opt_format := FString ''tga'', opt_customFormat := Some []\<rparr>)) \<and>
   map_sum id cfg_format
     (resolve_options example_env [''assets/a.png'']
        (png_options\<lparr>opt_format := FString ''tga'', opt_customFormat := Some []\<rparr>)) =
     Inr (Resolved [Entry \<lparr>template = ''json.template'', extension = ''json'', trim = True\<rparr>])"
proof -
  let ?o = "png_options\<lparr>opt_format := FString ''tga'', opt_customFormat := Some []\<rparr>"
  have unreg: "map_of FORMATS ''tga'' = None"
    by (simp add: FORMATS_def)
  have uninh: "''tga'' \<notin> set Object_prototype_keys"
    by (simp add: Object_prototype_keys_def)
  have fmt: "opt_format ?o = FString ''tga''"
    by simp
  have nocf: "\<not> truthy_string (opt_customFormat ?o)"
    by (simp add: truthy_string_def)
  from unknown_format_falls_back[OF unreg uninh fmt nocf, of example_env "[''assets/a.png'']"]
  show ?thesis using unreg uninh fmt nocf by auto
qed

text \<open>
  The claim as stated fails: with the unregistered format \<open>gif\<close> and no custom template
  the run ends with the callback called without an error, on the pixi.js format.
\<close>

theorem unknown_format_counterexample:
  "outcome (generate example_env example_generator ''assets''
      (Some (png_options\<lparr>opt_format := FString ''gif''\<rparr>)) example_fs) = Callback None \<and>
   map_sum id cfg_format
     (resolve_options example_env [''assets/a.png'', ''assets/b.png'']
        (png_options\<lparr>opt_format := FString ''gif''\<rparr>)) =
     Inr (Resolved [Entry \<lparr>template = ''json.template'', extension = ''json'', trim = True\<rparr>])"
  by code_simp

section \<open>The command line check\<close>

text \<open>
  C4. The check is meant to reject binpacking without a width and a height, as its
  message and the usage text say. With both left at their default \<open>null\<close> it accepts
  the arguments all the same: \<open>Number(null)\<close> is 0, which is not NaN.
\<close>

theorem binpacking_defaults_accepted:
  "check numeric \<lparr>algorithm = JStr ''binpacking'', width = JNull, height = JNull\<rparr> = Inr True"
  by (simp add: check_def isNaN_Number_def)

theorem binpacking_defaults_accepted_witness:
  "check (\<lambda>s. False) \<lparr>algorithm = JStr ''binpacking'', width = JNull, height = JNull\<rparr> = Inr True"
  by (rule binpacking_defaults_accepted)

section \<open>An empty source set\<close>

text \<open>
  C2. When no file matches the pattern, \<open>generate\<close> calls the callback with the error
  \<open>no files found...\<close>; no stage has run and the file system is as it was.
\<close>

theorem no_files_error:
  assumes "glob_sync e (glob_pattern dir (options_or_empty oo)) = []"
  shows "generate e gen dir oo fs =
           \<lparr>outcome = Callback (Some (Error ''no files found...'')), fs_after = fs, invoked = []\<rparr>"
  unfolding generate_def Let_def assms by simp

theorem no_files_error_witness:
  "glob_sync example_env (glob_pattern ''empty'' (options_or_empty (Some png_options))) = [] \<and>
   generate example_env example_generator ''empty'' (Some png_options) example_fs =
     \<lparr>outcome = Callback (Some (Error ''no files found...'')), fs_after = example_fs, invoked = []\<rparr>"
proof -
  have g: "glob_sync example_env (glob_pattern ''empty'' (options_or_empty (Some png_options))) = []"
    by (simp add: example_env_def glob_pattern_def options_or_empty_def png_options_def
        empty_options_def to_string_def)
  from no_files_error[OF g] show ?thesis using g by simp
qed

section \<open>The spritesheet name\<close>

lemma resolve_options_name:
  "resolve_options e files opts = Inr cfg \<Longrightarrow>
     cfg_name cfg = string_or (opt_name opts) (default_name e files)"
  by (auto simp: resolve_options_def Let_def split: sum.splits)

text \<open>
  C7. When no name is configured (the options have no \<open>name\<close>, or an empty one), the
  spritesheet name is the last \<open>/\<close>-separated piece of the directory of the first source
  file, that is the base name of the source directory: what follows its last slash, or
  the whole of it when it has no slash. It is the name under which the old
  \<open><name>.png\<close> and \<open><name>.json\<close> are looked up in the output directory.
\<close>

theorem default_name_is_directory_base_name:
  assumes files: "files \<noteq> []"
    and unset: "opt_name opts = None \<or> opt_name opts = Some []"
    and ro: "resolve_options e files opts = Inr cfg"
  shows "cfg_name cfg = pop (split CHR ''/'' (path_dirname e (hd files))) \<and>
         (\<forall>d b. path_dirname e (hd files) = d @ CHR ''/'' # b \<and> CHR ''/'' \<notin> set b \<longrightarrow>
                cfg_name cfg = b) \<and>
         (CHR ''/'' \<notin> set (path_dirname e (hd files)) \<longrightarrow>
            cfg_name cfg = path_dirname e (hd files)) \<and>
         output_file e cfg ''.png'' = path_resolve e (cfg_path cfg @ ''/'' @ cfg_name cfg @ ''.png'') \<and>
         output_file e cfg ''.json'' = path_resolve e (cfg_path cfg @ ''/'' @ cfg_name cfg @ ''.json'')"
proof -
  have n: "cfg_name cfg = pop (split CHR ''/'' (path_dirname e (hd files)))"
    using resolve_options_name[OF ro] unset by (auto simp: string_or_def default_name_def)
  have a: "cfg_name cfg = b" if "path_dirname e (hd files) = d @ CHR ''/'' # b" "CHR ''/'' \<notin> set b" for d b
    using that n by (simp add: pop_def last_split_append)
  have b: "cfg_name cfg = path_dirname e (hd files)" if "CHR ''/'' \<notin> set (path_dirname e (hd files))"
    using that n by (simp add: pop_def split_no_sep)
  show ?thesis using n a b by (auto simp: output_file_def)
qed

theorem default_name_is_directory_base_name_witness:
  "[''assets/a.png'', ''assets/b.png''] \<noteq> [] \<and>
   opt_name png_options = None \<and>
   path_dirname example_env (hd [''assets/a.png'', ''assets/b.png'']) = ''assets'' \<and>
   map_sum id cfg_name
     (resolve_options example_env [''assets/a.png'', ''assets/b.png''] png_options) = Inr ''assets'' \<and>
   map_sum id (\<lambda>c. output_file example_env c ''.png'')
     (resolve_options example_env [''assets/a.png'', ''assets/b.png''] png_options) =
     Inr ''/w/export/assets.png''"
proof -
  let ?fs = "[''assets/a.png'', ''assets/b.png'']"
  have unset: "opt_name png_options = None \<or> opt_name png_options = Some []"
    by (simp add: png_options_def empty_options_def)
  have d: "path_dirname example_env (hd ?fs) = ''assets''"
    by code_simp
  have "map_sum id cfg_path (resolve_options example_env ?fs png_options) = Inr ''/w/export''"
    by code_simp
  then obtain cfg where ro: "resolve_options example_env ?fs png_options = Inr cfg"
    and p: "cfg_path cfg = ''/w/export''"
    by (cases "resolve_options example_env ?fs png_options") auto
  have nn: "?fs \<noteq> []" by simp
  from default_name_is_directory_base_name[OF nn unset ro] d
  have "cfg_name cfg = ''assets''"
    "output_file example_env cfg ''.png'' = path_resolve example_env (cfg_path cfg @ ''/'' @ cfg_name cfg @ ''.png'')"
    by (simp_all add: pop_def)
  then show ?thesis using unset d ro p nn
    by (simp add: png_options_def empty_options_def example_env_def)
qed

section \<open>Frame names\<close>

lemma map_files_names: "map file_name (map_files e cfg files) = map (frame_name e cfg) files"
proof -
  have "map file_name (map (file_entry e cfg) (enumerate n files)) = map (frame_name e cfg) files" for n
    by (induction files arbitrary: n) (simp_all add: file_entry_def)
  then show ?thesis by (simp add: map_files_def)
qed

lemma base_name_substring:
  assumes b: "c \<notin> set b" and x: "c \<notin> set x" "CHR ''.'' \<notin> set x" and c: "c \<noteq> CHR ''.''"
  shows "substring (d @ c # b @ CHR ''.'' # x) (lastIndexOf (d @ c # b @ CHR ''.'' # x) c + 1)
           (lastIndexOf (d @ c # b @ CHR ''.'' # x) CHR ''.'') = b"
proof -
  have 1: "lastIndexOf (d @ c # b @ CHR ''.'' # x) c = int (length d)"
    using b x c by (intro lastIndexOf_append) auto
  have "lastIndexOf ((d @ c # b) @ CHR ''.'' # x) CHR ''.'' = int (length (d @ c # b))"
    using x by (intro lastIndexOf_append) auto
  then have 2: "lastIndexOf (d @ c # b @ CHR ''.'' # x) CHR ''.'' = int (length d) + 1 + int (length b)"
    by simp
  have "substring ((d @ [c]) @ b @ (CHR ''.'' # x)) (int (length (d @ [c])))
          (int (length (d @ [c])) + int (length b)) = b"
    by (rule substring_middle)
  then show ?thesis by (simp add: 1 2 add.commute add.left_commute)
qed

text \<open>
  C6, as amended. Every file entry is named by the prefix/fullpath transform of its path.
  When \<open>fullpath\<close> is false, the name is the configured prefix followed by the base name
  of the resolved path with its extension removed. When \<open>fullpath\<close> is true, the name is
  the path as given with its extension removed, and the prefix is not applied. The
  extension is what follows the last dot.
\<close>

theorem frame_name_transform:
  "map file_name (map_files e cfg files) = map (frame_name e cfg) files \<and>
   (\<not> cfg_fullpath cfg \<and> path_resolve e item = d @ path_sep e # b @ CHR ''.'' # x \<and>
      path_sep e \<notin> set b \<and> path_sep e \<notin> set x \<and> CHR ''.'' \<notin> set x \<and>
      path_sep e \<noteq> CHR ''.'' \<longrightarrow>
    frame_name e cfg item = cfg_prefix cfg @ b) \<and>
   (cfg_fullpath cfg \<and> item = p @ CHR ''.'' # x \<and> CHR ''.'' \<notin> set x \<longrightarrow>
    frame_name e cfg item = p)"
proof -
  have a: "frame_name e cfg item = cfg_prefix cfg @ b"
    if "\<not> cfg_fullpath cfg" "path_resolve e item = d @ path_sep e # b @ CHR ''.'' # x"
      "path_sep e \<notin> set b" "path_sep e \<notin> set x" "CHR ''.'' \<notin> set x" "path_sep e \<noteq> CHR ''.''"
    using that base_name_substring[of "path_sep e" b x d]
    by (simp add: frame_name_def Let_def)
  have b: "frame_name e cfg item = p"
    if "cfg_fullpath cfg" "item = p @ CHR ''.'' # x" "CHR ''.'' \<notin> set x"
    using that by (simp add: frame_name_def Let_def lastIndexOf_append substring_prefix)
  show ?thesis using a b map_files_names by blast
qed


theorem frame_name_transform_witness:
  "map_sum id (\<lambda>c. (cfg_fullpath c, cfg_prefix c, map file_name (map_files example_env c [''assets/a.png''])))
     (resolve_options example_env [''assets/a.png''] (png_options\<lparr>opt_prefix := Some ''p_''\<rparr>)) =
     Inr (False, ''p_'', [''p_a'']) \<and>
   path_resolve example_env ''assets/a.png'' = ''/w/assets'' @ path_sep example_env # ''a'' @ CHR ''.'' # ''png'' \<and>
   map_sum id (\<lambda>c. (cfg_fullpath c, map file_name (map_files example_env c [''assets/a.png''])))
     (resolve_options example_env [''assets/a.png''] (png_options\<lparr>opt_fullpath := Some True\<rparr>)) =
     Inr (True, [''assets/a''])"
proof -
  let ?fs = "[''assets/a.png'']"
  have "map_sum id (\<lambda>c. (cfg_fullpath c, cfg_prefix c))
      (resolve_options example_env ?fs (png_options\<lparr>opt_prefix := Some ''p_''\<rparr>)) = Inr (False, ''p_'')"
    by code_simp
  then obtain c1 where
    r1: "resolve_options example_env ?fs (png_options\<lparr>opt_prefix := Some ''p_''\<rparr>) = Inr c1"
    and f1: "\<not> cfg_fullpath c1" and p1: "cfg_prefix c1 = ''p_''"
    by (cases "resolve_options example_env ?fs (png_options\<lparr>opt_prefix := Some ''p_''\<rparr>)") auto
  have "map_sum id cfg_fullpath
      (resolve_options example_env ?fs (png_options\<lparr>opt_fullpath := Some True\<rparr>)) = Inr True"
    by code_simp
  then obtain c2 where
    r2: "resolve_options example_env ?fs (png_options\<lparr>opt_fullpath := Some True\<rparr>) = Inr c2"
    and f2: "cfg_fullpath c2"
    by (cases "resolve_options example_env ?fs (png_options\<lparr>opt_fullpath := Some True\<rparr>)") auto
  have pr: "path_resolve example_env ''assets/a.png'' =
      ''/w/assets'' @ path_sep example_env # ''a'' @ CHR ''.'' # ''png''"
    by (simp add: example_env_def)
  have sep: "path_sep example_env = CHR ''/''"
    by (simp add: example_env_def)
  from frame_name_transform[of example_env c1 ?fs "''assets/a.png''" "''/w/assets''" "''a''" "''png''"]
  have n1: "map file_name (map_files example_env c1 ?fs) = [''p_a'']"
    using f1 p1 pr sep by simp
  from frame_name_transform[of example_env c2 ?fs "''assets/a.png''" _ _ "''png''" "''assets/a''"]
  have n2: "map file_name (map_files example_env c2 ?fs) = [''assets/a'']"
    using f2 by simp
  show ?thesis using r1 r2 f1 p1 f2 n1 n2 pr by simp
qed

text \<open>
  The claim as stated fails: with \<open>fullpath\<close> true and the prefix \<open>p_\<close> the names are the
  paths without their extension, and the prefix is nowhere in them.
\<close>

theorem frame_name_fullpath_counterexample:
  "map_sum id (\<lambda>c. map file_name (map_files example_env c [''assets/a.png'', ''assets/b.png'']))
     (resolve_options example_env [''assets/a.png'', ''assets/b.png'']
        (png_options\<lparr>opt_fullpath := Some True, opt_prefix := Some ''p_''\<rparr>)) =
     Inr [''assets/a'', ''assets/b'']"
  by code_simp

section \<open>The waterfall\<close>

lemma call_stage_cases:
  "call_stage k f (s, log) = (r, s', log') \<Longrightarrow>
     (\<exists>err. r = Inl err \<and> log' = log @ [Failed k]) \<or> (\<exists>v. r = Inr v \<and> log' = log @ [Passed k])"
  by (auto simp: call_stage_def split: prod.splits sum.splits)

lemma waterfall_then_cases:
  "waterfall_then (call_stage k f) g (s, log) = (r, s', log') \<Longrightarrow>
     (\<exists>err. r = Inl err \<and> log' = log @ [Failed k]) \<or>
     (\<exists>v s1. g v (s1, log @ [Passed k]) = (r, s', log'))"
  by (auto simp: waterfall_then_def call_stage_def split: prod.splits sum.splits)

lemma waterfall_log:
  assumes "waterfall gen (s, []) = (r, s', log)"
  shows "(\<exists>err. r = Inl err \<and>
            log \<in> set [[Failed TreatImages],
                        [Passed TreatImages, Failed GetImagesSizes],
                        [Passed TreatImages, Passed GetImagesSizes, Failed DetermineCanvasSize],
                        [Passed TreatImages, Passed GetImagesSizes, Passed DetermineCanvasSize,
                         Failed GenerateImage],
                        [Passed TreatImages, Passed GetImagesSizes, Passed DetermineCanvasSize,
                         Passed GenerateImage, Failed GenerateData]]) \<or>
         (r = Inr () \<and>
            log = [Passed TreatImages, Passed GetImagesSizes, Passed DetermineCanvasSize,
                   Passed GenerateImage, Passed GenerateData])"
  using assms unfolding waterfall_def
  by (fastforce dest!: waterfall_then_cases call_stage_cases)


text \<open>
  C1, as amended. The five stages run strictly in sequence, and an error in any stage
  ends the chain before the later stages run: the log of a run is empty (the run ended
  before the waterfall, and not with a success), or it is an unbroken run of passed
  stages, in the order of the array, closed by the one stage that failed, and the
  callback gets an error, or all five stages passed and the callback gets none. So a
  failure of treatImages, getImagesSizes or determineCanvasSize comes before generateImage
  (the atlas write) and generateData (the descriptor write) are called, and a failure of
  generateImage before generateData is called; a failure of generateData comes after
  generateImage has passed.
\<close>

theorem pipeline_aborts_at_first_failure:
  "(invoked (generate e gen dir oo fs) = [] \<and> outcome (generate e gen dir oo fs) \<noteq> Callback None) \<or>
   ((\<exists>err. outcome (generate e gen dir oo fs) = Callback (Some err)) \<and>
    invoked (generate e gen dir oo fs) \<in>
      set [[Failed TreatImages],
           [Passed TreatImages, Failed GetImagesSizes],
           [Passed TreatImages, Passed GetImagesSizes, Failed DetermineCanvasSize],
           [Passed TreatImages, Passed GetImagesSizes, Passed DetermineCanvasSize,
            Failed GenerateImage],
           [Passed TreatImages, Passed GetImagesSizes, Passed DetermineCanvasSize,
            Passed GenerateImage, Failed GenerateData]]) \<or>
   (outcome (generate e gen dir oo fs) = Callback None \<and>
    invoked (generate e gen dir oo fs) =
      [Passed TreatImages, Passed GetImagesSizes, Passed DetermineCanvasSize,
       Passed GenerateImage, Passed GenerateData])"
proof -
  define opts where "opts = options_or_empty oo"
  define files where "files = glob_sync e (glob_pattern dir opts)"
  show ?thesis
  proof (cases "length files = 0")
    case True
    then show ?thesis
      by (simp add: generate_def Let_def opts_def files_def)
  next
    case nonempty: False
    show ?thesis
    proof (cases "resolve_options e files opts")
      case (Inl err)
      then show ?thesis
        using nonempty by (simp add: generate_def Let_def opts_def files_def)
    next
      case (Inr options)
      obtain perr fs1 where po: "prepare_output e options fs = (perr, fs1)"
        by (cases "prepare_output e options fs")
      show ?thesis
      proof (cases perr)
        case (Some err)
        then show ?thesis
          using nonempty Inr po by (simp add: generate_def Let_def opts_def files_def)
      next
        case None
        obtain r s' log where
          w: "waterfall gen (\<lparr>st_files = map_files e options files, st_options = options,
                st_fs = fs1\<rparr>, []) = (r, s', log)"
          using prod_cases3 by blast
        have g: "generate e gen dir oo fs =
            \<lparr>outcome = Callback (case r of Inl err \<Rightarrow> Some err | Inr _ \<Rightarrow> None),
             fs_after = st_fs s', invoked = log\<rparr>"
          using nonempty Inr po None w by (simp add: generate_def Let_def opts_def files_def)
        from waterfall_log[OF w] show ?thesis
          unfolding g by auto
      qed
    qed
  qed
qed

theorem pipeline_aborts_at_first_failure_witness:
  "outcome (generate example_env failing_data_generator ''assets'' (Some png_options) example_fs) \<noteq>
     Callback None \<and>
   invoked (generate example_env failing_data_generator ''assets'' (Some png_options) example_fs) \<noteq> [] \<and>
   invoked (generate example_env failing_data_generator ''assets'' (Some png_options) example_fs) \<in>
      set [[Failed TreatImages],
           [Passed TreatImages, Failed GetImagesSizes],
           [Passed TreatImages, Passed GetImagesSizes, Failed DetermineCanvasSize],
           [Passed TreatImages, Passed GetImagesSizes, Passed DetermineCanvasSize,
            Failed GenerateImage],
           [Passed TreatImages, Passed GetImagesSizes, Passed DetermineCanvasSize,
            Passed GenerateImage, Failed GenerateData]]"
proof -
  let ?r = "generate example_env failing_data_generator ''assets'' (Some png_options) example_fs"
  have o: "outcome ?r \<noteq> Callback None"
    by code_simp
  have i: "invoked ?r \<noteq> []"
    by code_simp
  from pipeline_aborts_at_first_failure[of example_env failing_data_generator "''assets''"
      "Some png_options" example_fs] o i
  show ?thesis by blast
qed

text \<open>
  The claim as stated fails: when the last stage fails, the run ends with a fatal error
  although generateImage was called and passed before it; with the Compositor of the
  example the atlas is then in the output directory.
\<close>

theorem failure_after_atlas_counterexample:
  "outcome (generate example_env failing_data_generator ''assets'' (Some png_options) example_fs) =
     Callback (Some (Error ''no template'')) \<and>
   invoked (generate example_env failing_data_generator ''assets'' (Some png_options) example_fs) =
     [Passed TreatImages, Passed GetImagesSizes, Passed DetermineCanvasSize,
      Passed GenerateImage, Failed GenerateData] \<and>
   fs_after (generate example_env failing_data_generator ''assets'' (Some png_options) example_fs)
     ''/w/export/assets.png'' = Some (RegularFile ''atlas'')"
  by code_simp

section \<open>The FORMATS table: starling and sparrow\<close>

lemma FORMATS_get_starling_sparrow:
  "FORMATS_get ''starling'' =
     Entry \<lparr>template = ''starling.template'', extension = ''xml'', trim = True\<rparr>"
  "FORMATS_get ''sparrow'' =
     Entry \<lparr>template = ''starling.template'', extension = ''xml'', trim = True\<rparr>"
  by (simp_all add: FORMATS_get_def FORMATS_def)

lemma resolve_format_starling_sparrow:
  "resolve_format (FString ''starling'') cf =
     Resolved [Entry \<lparr>template = ''starling.template'', extension = ''xml'', trim = True\<rparr>]"
  "resolve_format (FString ''sparrow'') cf =
     Resolved [Entry \<lparr>template = ''starling.template'', extension = ''xml'', trim = True\<rparr>]"
  by (simp_all add: resolve_format_def format_or_pixi_def format_key_def truthy_format_def
      FORMATS_get_starling_sparrow)

lemma resolve_options_format_cong:
  assumes "resolve_format (opt_format a) (opt_customFormat a) =
           resolve_format (opt_format b) (opt_customFormat b)"
    and "b = a\<lparr>opt_format := f\<rparr>"
  shows "resolve_options e files a = resolve_options e files b"
  unfolding resolve_options_def assms(1) using assms(2)
  by (simp cong: sum.case_cong option.case_cong)

text \<open>
  C8. The formats \<open>starling\<close> and \<open>sparrow\<close> are one schema: selecting either one
  resolves to the same renderer template, \<open>starling.template\<close>, and to the same output
  file extension, \<open>xml\<close> (unless the caller gives an extension of their own, which then
  holds for both), as a single format and as a member of an array of formats. The
  resolved options are the same, and so a run with the one format and a run with the
  other, all else equal, are the same run, whatever the stages do.
\<close>

theorem starling_sparrow_same:
  "FORMATS_get ''starling'' = FORMATS_get ''sparrow'' \<and>
   FORMATS_get ''starling'' =
     Entry \<lparr>template = ''starling.template'', extension = ''xml'', trim = True\<rparr> \<and>
   resolve_format (FString ''starling'') cf =
     Resolved [Entry \<lparr>template = ''starling.template'', extension = ''xml'', trim = True\<rparr>] \<and>
   resolve_format (FString ''sparrow'') cf =
     Resolved [Entry \<lparr>template = ''starling.template'', extension = ''xml'', trim = True\<rparr>] \<and>
   resolve_format (FArray (xs @ ''starling'' # ys)) cf =
     Resolved (map FORMATS_get xs @
       Entry \<lparr>template = ''starling.template'', extension = ''xml'', trim = True\<rparr> #
       map FORMATS_get ys) \<and>
   resolve_format (FArray (xs @ ''sparrow'' # ys)) cf =
     Resolved (map FORMATS_get xs @
       Entry \<lparr>template = ''starling.template'', extension = ''xml'', trim = True\<rparr> #
       map FORMATS_get ys) \<and>
   (\<exists>cfg. resolve_options e files (opts\<lparr>opt_format := FString ''starling''\<rparr>) = Inr cfg \<and>
          resolve_options e files (opts\<lparr>opt_format := FString ''sparrow''\<rparr>) = Inr cfg \<and>
          cfg_format cfg =
            Resolved [Entry \<lparr>template = ''starling.template'', extension = ''xml'', trim = True\<rparr>] \<and>
          cfg_extension cfg = Some (case opt_extension opts of None \<Rightarrow> ''xml'' | Some x \<Rightarrow> x)) \<and>
   generate e gen dir (Some (opts\<lparr>opt_format := FString ''starling''\<rparr>)) fs =
   generate e gen dir (Some (opts\<lparr>opt_format := FString ''sparrow''\<rparr>)) fs \<and>
   generate e gen dir (Some (opts\<lparr>opt_format := FArray (xs @ ''starling'' # ys)\<rparr>)) fs =
   generate e gen dir (Some (opts\<lparr>opt_format := FArray (xs @ ''sparrow'' # ys)\<rparr>)) fs"
proof -
  let ?en = "\<lparr>template = ''starling.template'', extension = ''xml'', trim = True\<rparr>"
  let ?st = "opts\<lparr>opt_format := FString ''starling''\<rparr>"
  let ?sp = "opts\<lparr>opt_format := FString ''sparrow''\<rparr>"
  let ?ast = "opts\<lparr>opt_format := FArray (xs @ ''starling'' # ys)\<rparr>"
  let ?asp = "opts\<lparr>opt_format := FArray (xs @ ''sparrow'' # ys)\<rparr>"
  note g = FORMATS_get_starling_sparrow
  note r = resolve_format_starling_sparrow
  have a1: "resolve_format (FArray (xs @ ''starling'' # ys)) cf =
      Resolved (map FORMATS_get xs @ Entry ?en # map FORMATS_get ys)" for cf
    by (simp add: resolve_format_def g)
  have a2: "resolve_format (FArray (xs @ ''sparrow'' # ys)) cf =
      Resolved (map FORMATS_get xs @ Entry ?en # map FORMATS_get ys)" for cf
    by (simp add: resolve_format_def g)
  have o1: "resolve_options e files ?st = resolve_options e files ?sp" for files
    by (rule resolve_options_format_cong[where f = "FString ''sparrow''"]) (simp_all add: r)
  have o2: "resolve_options e files ?ast = resolve_options e files ?asp" for files
    by (rule resolve_options_format_cong[where f = "FArray (xs @ ''sparrow'' # ys)"])
      (simp_all add: a1 a2)
  have "resolve_format (opt_format ?st) (opt_customFormat ?st) = Resolved (Entry ?en # [])"
    by (simp add: r)
  from resolve_options_Entry[OF this, of e files]
  obtain cfg where c: "resolve_options e files ?st = Inr cfg"
    "cfg_format cfg = Resolved [Entry ?en]"
    "cfg_extension cfg = Some (case opt_extension opts of None \<Rightarrow> ''xml'' | Some x \<Rightarrow> x)"
    by (cases "opt_extension opts") auto
  have ex: "\<exists>cfg. resolve_options e files ?st = Inr cfg \<and> resolve_options e files ?sp = Inr cfg \<and>
      cfg_format cfg = Resolved [Entry ?en] \<and>
      cfg_extension cfg = Some (case opt_extension opts of None \<Rightarrow> ''xml'' | Some x \<Rightarrow> x)"
    using c o1[of files] by auto
  have g1: "generate e gen dir (Some ?st) fs = generate e gen dir (Some ?sp) fs"
    by (rule generate_cong) (simp_all add: o1)
  have g2: "generate e gen dir (Some ?ast) fs = generate e gen dir (Some ?asp) fs"
    by (rule generate_cong) (simp_all add: o2)
  show ?thesis
    using g r[of cf] a1[of cf] a2[of cf] ex g1 g2 by (intro conjI) simp_all
qed

section \<open>Padding\<close>






section \<open>The output directory\<close>

lemma remove_existing_file:
  assumes "replace_escaped_spaces p = p" "fs p \<noteq> Some Directory"
  shows "remove_existing fs p = (None, fs(p := None))"
proof (cases "fs p")
  case None
  then have "fs(p := None) = fs" by auto
  then show ?thesis using None by (simp add: remove_existing_def existsSync_def)
next
  case (Some n)
  then obtain bytes where "fs p = Some (RegularFile bytes)"
    using assms(2) by (cases n) auto
  then show ?thesis
    using assms(1) by (simp add: remove_existing_def existsSync_def unlinkSync_def)
qed

lemma prepare_output_creates:
  assumes "\<not> existsSync fs (cfg_path cfg)" "cfg_path cfg \<noteq> []"
    and "fs (path_dirname e (cfg_path cfg)) = Some Directory"
  shows "prepare_output e cfg fs = (None, fs(cfg_path cfg \<mapsto> Directory))"
  using assms by (simp add: prepare_output_def mkdirSync_def existsSync_def)

lemma prepare_output_removes:
  assumes x: "existsSync fs (cfg_path cfg)"
    and p: "replace_escaped_spaces (output_file e cfg ''.png'') = output_file e cfg ''.png''"
      "fs (output_file e cfg ''.png'') \<noteq> Some Directory"
    and j: "replace_escaped_spaces (output_file e cfg ''.json'') = output_file e cfg ''.json''"
      "fs (output_file e cfg ''.json'') \<noteq> Some Directory"
  shows "prepare_output e cfg fs =
      (None, fs(output_file e cfg ''.png'' := None, output_file e cfg ''.json'' := None))"
proof -
  let ?fs1 = "fs(output_file e cfg ''.png'' := None)"
  have 1: "remove_existing fs (output_file e cfg ''.png'') = (None, ?fs1)"
    using p by (rule remove_existing_file)
  have "?fs1 (output_file e cfg ''.json'') \<noteq> Some Directory"
    using j(2) by simp
  with j(1) have 2: "remove_existing ?fs1 (output_file e cfg ''.json'') =
      (None, ?fs1(output_file e cfg ''.json'' := None))"
    by (rule remove_existing_file)
  show ?thesis using x by (simp add: prepare_output_def 1 2)
qed

lemma generate_after_prepare:
  assumes "glob_sync e (glob_pattern dir (options_or_empty oo)) = files" "files \<noteq> []"
    and "resolve_options e files (options_or_empty oo) = Inr cfg"
    and "prepare_output e cfg fs = (None, fs1)"
  shows "generate e gen dir oo fs =
     (case waterfall gen
             (\<lparr>st_files = map_files e cfg files, st_options = cfg, st_fs = fs1\<rparr>, [])
      of (r, s, log) \<Rightarrow>
           \<lparr>outcome = Callback (case r of Inl err \<Rightarrow> Some err | Inr _ \<Rightarrow> None),
            fs_after = st_fs s, invoked = log\<rparr>)"
  using assms by (simp add: generate_def Let_def)

text \<open>
  C5, as amended. Take a run with a non-empty source set whose options resolve. When the
  output directory does not exist and its parent is an existing directory, the directory
  is created and nothing else changes. When the output path exists, the files
  \<open><name>.png\<close> and \<open><name>.json\<close> in it are removed if they are there (they are not
  directories, and their paths hold no backslash followed by a space). In both cases no
  error is thrown and the run is the run of the five stages on the file system so
  prepared: the directory is there, and the old files are gone, before the first stage
  starts and so before any output is written. A write through the Sink overwrites a file
  of the same resolved name rather than failing, and a repeated write does not fail.
\<close>

theorem output_directory_prepared:
  "(glob_sync e (glob_pattern dir (options_or_empty oo)) = files \<and> files \<noteq> [] \<and>
      resolve_options e files (options_or_empty oo) = Inr cfg \<and>
      \<not> existsSync fs (cfg_path cfg) \<and> cfg_path cfg \<noteq> [] \<and>
      fs (path_dirname e (cfg_path cfg)) = Some Directory \<longrightarrow>
    prepare_output e cfg fs = (None, fs(cfg_path cfg \<mapsto> Directory)) \<and>
    generate e gen dir oo fs =
      (case waterfall gen
              (\<lparr>st_files = map_files e cfg files, st_options = cfg,
                st_fs = fs(cfg_path cfg \<mapsto> Directory)\<rparr>, [])
       of (r, s, log) \<Rightarrow>
            \<lparr>outcome = Callback (case r of Inl err \<Rightarrow> Some err | Inr _ \<Rightarrow> None),
             fs_after = st_fs s, invoked = log\<rparr>)) \<and>
   (glob_sync e (glob_pattern dir (options_or_empty oo)) = files \<and> files \<noteq> [] \<and>
      resolve_options e files (options_or_empty oo) = Inr cfg \<and>
      existsSync fs (cfg_path cfg) \<and>
      replace_escaped_spaces (output_file e cfg ''.png'') = output_file e cfg ''.png'' \<and>
      replace_escaped_spaces (output_file e cfg ''.json'') = output_file e cfg ''.json'' \<and>
      fs (output_file e cfg ''.png'') \<noteq> Some Directory \<and>
      fs (output_file e cfg ''.json'') \<noteq> Some Directory \<longrightarrow>
    prepare_output e cfg fs =
      (None, fs(output_file e cfg ''.png'' := None, output_file e cfg ''.json'' := None)) \<and>
    generate e gen dir oo fs =
      (case waterfall gen
              (\<lparr>st_files = map_files e cfg files, st_options = cfg,
                st_fs = fs(output_file e cfg ''.png'' := None, output_file e cfg ''.json'' := None)\<rparr>,
               [])
       of (r, s, log) \<Rightarrow>
            \<lparr>outcome = Callback (case r of Inl err \<Rightarrow> Some err | Inr _ \<Rightarrow> None),
             fs_after = st_fs s, invoked = log\<rparr>)) \<and>
   sink_write p new fs = (None, fs(p \<mapsto> RegularFile new)) \<and>
   sink_write p new (snd (sink_write p old fs)) = (None, fs(p \<mapsto> RegularFile new))"
proof -
  have a: "prepare_output e cfg fs = (None, fs(cfg_path cfg \<mapsto> Directory)) \<and>
    generate e gen dir oo fs =
      (case waterfall gen
              (\<lparr>st_files = map_files e cfg files, st_options = cfg,
                st_fs = fs(cfg_path cfg \<mapsto> Directory)\<rparr>, [])
       of (r, s, log) \<Rightarrow>
            \<lparr>outcome = Callback (case r of Inl err \<Rightarrow> Some err | Inr _ \<Rightarrow> None),
             fs_after = st_fs s, invoked = log\<rparr>)"
    if g: "glob_sync e (glob_pattern dir (options_or_empty oo)) = files" "files \<noteq> []"
      "resolve_options e files (options_or_empty oo) = Inr cfg"
      and d: "\<not> existsSync fs (cfg_path cfg)" "cfg_path cfg \<noteq> []"
      "fs (path_dirname e (cfg_path cfg)) = Some Directory"
    using prepare_output_creates[OF d] generate_after_prepare[OF g prepare_output_creates[OF d]]
    by simp
  have b: "prepare_output e cfg fs =
      (None, fs(output_file e cfg ''.png'' := None, output_file e cfg ''.json'' := None)) \<and>
    generate e gen dir oo fs =
      (case waterfall gen
              (\<lparr>st_files = map_files e cfg files, st_options = cfg,
                st_fs = fs(output_file e cfg ''.png'' := None, output_file e cfg ''.json'' := None)\<rparr>,
               [])
       of (r, s, log) \<Rightarrow>
            \<lparr>outcome = Callback (case r of Inl err \<Rightarrow> Some err | Inr _ \<Rightarrow> None),
             fs_after = st_fs s, invoked = log\<rparr>)"
    if g: "glob_sync e (glob_pattern dir (options_or_empty oo)) = files" "files \<noteq> []"
      "resolve_options e files (options_or_empty oo) = Inr cfg"
      and x: "existsSync fs (cfg_path cfg)"
      and q: "replace_escaped_spaces (output_file e cfg ''.png'') = output_file e cfg ''.png''"
        "fs (output_file e cfg ''.png'') \<noteq> Some Directory"
        "replace_escaped_spaces (output_file e cfg ''.json'') = output_file e cfg ''.json''"
        "fs (output_file e cfg ''.json'') \<noteq> Some Directory"
    using prepare_output_removes[OF x q]
      generate_after_prepare[OF g prepare_output_removes[OF x q]]
    by simp
  have s: "sink_write p new fs = (None, fs(p \<mapsto> RegularFile new))"
    "sink_write p new (snd (sink_write p old fs)) = (None, fs(p \<mapsto> RegularFile new))"
    by (simp_all add: sink_write_def)
  show ?thesis using a b s by blast
qed


theorem output_directory_prepared_witness:
  "glob_sync example_env
     (glob_pattern ''assets'' (options_or_empty (Some (png_options\<lparr>opt_path := Some ''out''\<rparr>)))) =
     [''assets/a.png'', ''assets/b.png''] \<and>
   resolve_options example_env [''assets/a.png'', ''assets/b.png'']
     (options_or_empty (Some (png_options\<lparr>opt_path := Some ''out''\<rparr>))) =
     Inr (projr (resolve_options example_env [''assets/a.png'', ''assets/b.png'']
            (png_options\<lparr>opt_path := Some ''out''\<rparr>))) \<and>
   cfg_path (projr (resolve_options example_env [''assets/a.png'', ''assets/b.png'']
      (png_options\<lparr>opt_path := Some ''out''\<rparr>))) = ''/w/out'' \<and>
   \<not> existsSync example_fs ''/w/out'' \<and>
   example_fs (path_dirname example_env ''/w/out'') = Some Directory \<and>
   prepare_output example_env
     (projr (resolve_options example_env [''assets/a.png'', ''assets/b.png'']
        (png_options\<lparr>opt_path := Some ''out''\<rparr>))) example_fs =
     (None, example_fs(''/w/out'' \<mapsto> Directory)) \<and>
   generate example_env example_generator ''assets''
     (Some (png_options\<lparr>opt_path := Some ''out''\<rparr>)) example_fs =
     (case waterfall example_generator
             (\<lparr>st_files = map_files example_env
                  (projr (resolve_options example_env [''assets/a.png'', ''assets/b.png'']
                     (png_options\<lparr>opt_path := Some ''out''\<rparr>)))
                  [''assets/a.png'', ''assets/b.png''],
               st_options =
                 projr (resolve_options example_env [''assets/a.png'', ''assets/b.png'']
                   (png_options\<lparr>opt_path := Some ''out''\<rparr>)),
               st_fs = example_fs(''/w/out'' \<mapsto> Directory)\<rparr>,
              [])
      of (r, s, log) \<Rightarrow>
           \<lparr>outcome = Callback (case r of Inl err \<Rightarrow> Some err | Inr _ \<Rightarrow> None),
            fs_after = st_fs s, invoked = log\<rparr>) \<and>
   glob_sync example_env (glob_pattern ''assets'' (options_or_empty (Some png_options))) =
     [''assets/a.png'', ''assets/b.png''] \<and>
   resolve_options example_env [''assets/a.png'', ''assets/b.png''] (options_or_empty (Some png_options)) =
     Inr (projr (resolve_options example_env [''assets/a.png'', ''assets/b.png''] png_options)) \<and>
   existsSync example_fs ''/w/export'' \<and>
   example_fs ''/w/export/assets.png'' = Some (RegularFile ''old atlas'') \<and>
   example_fs ''/w/export/assets.json'' = Some (RegularFile ''old descriptor'') \<and>
   prepare_output example_env
     (projr (resolve_options example_env [''assets/a.png'', ''assets/b.png''] png_options)) example_fs =
     (None, example_fs(''/w/export/assets.png'' := None, ''/w/export/assets.json'' := None)) \<and>
   generate example_env example_generator ''assets'' (Some png_options) example_fs =
     (case waterfall example_generator
             (\<lparr>st_files = map_files example_env
                  (projr (resolve_options example_env [''assets/a.png'', ''assets/b.png''] png_options))
                  [''assets/a.png'', ''assets/b.png''],
               st_options =
                 projr (resolve_options example_env [''assets/a.png'', ''assets/b.png''] png_options),
               st_fs = example_fs(''/w/export/assets.png'' := None, ''/w/export/assets.json'' := None)\<rparr>,
              [])
      of (r, s, log) \<Rightarrow>
           \<lparr>outcome = Callback (case r of Inl err \<Rightarrow> Some err | Inr _ \<Rightarrow> None),
            fs_after = st_fs s, invoked = log\<rparr>)"
proof -
  let ?F = "[''assets/a.png'', ''assets/b.png'']"
  let ?o1 = "png_options\<lparr>opt_path := Some ''out''\<rparr>"
  let ?c1 = "projr (resolve_options example_env ?F ?o1)"
  let ?c2 = "projr (resolve_options example_env ?F png_options)"
  have nn: "?F \<noteq> []" by simp
  have g1: "glob_sync example_env (glob_pattern ''assets'' (options_or_empty (Some ?o1))) = ?F"
    by code_simp
  have r1: "resolve_options example_env ?F (options_or_empty (Some ?o1)) = Inr ?c1"
    by code_simp
  have p1: "cfg_path ?c1 = ''/w/out''"
    by code_simp
  have x1: "\<not> existsSync example_fs ''/w/out''"
    by code_simp
  have d1: "example_fs (path_dirname example_env ''/w/out'') = Some Directory"
    by code_simp
  have a: "prepare_output example_env ?c1 example_fs = (None, example_fs(cfg_path ?c1 \<mapsto> Directory)) \<and>
      generate example_env example_generator ''assets'' (Some ?o1) example_fs =
      (case waterfall example_generator
              (\<lparr>st_files = map_files example_env ?c1 ?F, st_options = ?c1,
                st_fs = example_fs(cfg_path ?c1 \<mapsto> Directory)\<rparr>, [])
       of (r, s, log) \<Rightarrow>
            \<lparr>outcome = Callback (case r of Inl err \<Rightarrow> Some err | Inr _ \<Rightarrow> None),
             fs_after = st_fs s, invoked = log\<rparr>)"
    by (rule output_directory_prepared[THEN conjunct1, rule_format])
      (simp add: g1 r1 p1 x1 d1)
  have g2: "glob_sync example_env (glob_pattern ''assets'' (options_or_empty (Some png_options))) = ?F"
    by code_simp
  have r2: "resolve_options example_env ?F (options_or_empty (Some png_options)) = Inr ?c2"
    by code_simp
  have p2: "cfg_path ?c2 = ''/w/export''"
    "output_file example_env ?c2 ''.png'' = ''/w/export/assets.png''"
    "output_file example_env ?c2 ''.json'' = ''/w/export/assets.json''"
    by code_simp+
  have x2: "existsSync example_fs ''/w/export''"
    by code_simp
  have f2: "example_fs ''/w/export/assets.png'' = Some (RegularFile ''old atlas'')"
    "example_fs ''/w/export/assets.json'' = Some (RegularFile ''old descriptor'')"
    by code_simp+
  have e2: "replace_escaped_spaces ''/w/export/assets.png'' = ''/w/export/assets.png''"
    "replace_escaped_spaces ''/w/export/assets.json'' = ''/w/export/assets.json''"
    by code_simp+
  have b: "prepare_output example_env ?c2 example_fs =
        (None, example_fs(output_file example_env ?c2 ''.png'' := None,
                          output_file example_env ?c2 ''.json'' := None)) \<and>
      generate example_env example_generator ''assets'' (Some png_options) example_fs =
      (case waterfall example_generator
              (\<lparr>st_files = map_files example_env ?c2 ?F, st_options = ?c2,
                st_fs = example_fs(output_file example_env ?c2 ''.png'' := None,
                                   output_file example_env ?c2 ''.json'' := None)\<rparr>, [])
       of (r, s, log) \<Rightarrow>
            \<lparr>outcome = Callback (case r of Inl err \<Rightarrow> Some err | Inr _ \<Rightarrow> None),
             fs_after = st_fs s, invoked = log\<rparr>)"
    by (rule output_directory_prepared[THEN conjunct2, THEN conjunct1, rule_format])
      (simp add: g2 r2 p2 x2 f2 e2)
  show ?thesis
    using g1 r1 p1 x1 d1 a[unfolded p1] g2 r2 x2 f2 b[unfolded p2] by (intro conjI) simp_all
qed

text \<open>
  The claim as stated fails: the output path \<open>out/sub\<close> has no parent directory
  \<open>/w/out\<close>, so \<open>mkdirSync\<close> throws; the run ends with that exception and the directory
  is not there afterwards.
\<close>

theorem missing_parent_counterexample:
  "example_fs ''/w/out/sub'' = None \<and>
   outcome (generate example_env example_generator ''assets''
     (Some (png_options\<lparr>opt_path := Some ''out/sub''\<rparr>)) example_fs) = Throws (SystemError ENOENT) \<and>
   invoked (generate example_env example_generator ''assets''
     (Some (png_options\<lparr>opt_path := Some ''out/sub''\<rparr>)) example_fs) = [] \<and>
   fs_after (generate example_env example_generator ''assets''
     (Some (png_options\<lparr>opt_path := Some ''out/sub''\<rparr>)) example_fs) ''/w/out/sub'' = None"
  by code_simp

end
